theory Spec2Isabelle
  imports Main
begin

section \<open>JavaScript values and the built-ins the converter relies on\<close>

text \<open>
  The converter (\<open>lib/json2csv.js\<close>) receives parsed JSON. A value is one of the JSON
  kinds, or \<open>undefined\<close>, which the row expander writes into a row and which a missing
  property reads as. Numbers are the integer-valued ones (their literal is the decimal
  numeral; fractions, exponents and the IEEE special values are left out). A string is a
  list of characters; an object is the list of its own enumerable properties in
  enumeration order, looked up by the first entry of a key.
\<close>

datatype jsval =
    JUndefined
  | JNull
  | JBool bool
  | JNum int
  | JStr string
  | JArr "jsval list"
  | JObj "(string \<times> jsval) list"

datatype error =
    Error string
  | TypeError

text \<open>\<open>typeof v\<close>; \<open>typeof null\<close> is \<open>'object'\<close>, as it is for arrays.\<close>

fun typeof :: "jsval \<Rightarrow> string" where
  "typeof JUndefined = ''undefined''"
| "typeof JNull = ''object''"
| "typeof (JBool b) = ''boolean''"
| "typeof (JNum n) = ''number''"
| "typeof (JStr s) = ''string''"
| "typeof (JArr xs) = ''object''"
| "typeof (JObj kvs) = ''object''"

text \<open>Truthiness, as \<open>v || d\<close>, \<open>v && e\<close> and \<open>if (v)\<close> read a value.\<close>

fun truthy :: "jsval \<Rightarrow> bool" where
  "truthy JUndefined = False"
| "truthy JNull = False"
| "truthy (JBool b) = b"
| "truthy (JNum n) = (n \<noteq> 0)"
| "truthy (JStr s) = (s \<noteq> [])"
| "truthy (JArr xs) = True"
| "truthy (JObj kvs) = True"

fun isArray :: "jsval \<Rightarrow> bool" where
  "isArray (JArr xs) = True"
| "isArray v = False"

subsection \<open>Decimal numerals\<close>

definition digitChar :: "nat \<Rightarrow> char" where
  "digitChar d = ''0123456789'' ! d"

fun showNat :: "nat \<Rightarrow> string" where
  "showNat n = (if n < 10 then [digitChar n] else showNat (n div 10) @ [digitChar (n mod 10)])"

declare showNat.simps [simp del]

definition showInt :: "int \<Rightarrow> string" where
  "showInt i = (if i < 0 then CHR ''-'' # showNat (nat (- i)) else showNat (nat i))"

text \<open>
  An array index as a property key: the canonical numeral of a natural number
  (\<open>'0'\<close>, \<open>'17'\<close>, never \<open>'01'\<close>).
\<close>

fun digitVal :: "char \<Rightarrow> nat option" where
  "digitVal c = (if c \<in> set ''0123456789'' then Some (of_char c - 48) else None)"

fun readNat :: "nat \<Rightarrow> string \<Rightarrow> nat option" where
  "readNat acc [] = Some acc"
| "readNat acc (c # cs) = (case digitVal c of None \<Rightarrow> None | Some d \<Rightarrow> readNat (10 * acc + d) cs)"

definition parseIndex :: "string \<Rightarrow> nat option" where
  "parseIndex k =
     (if k = [] then None
      else if hd k = CHR ''0'' \<and> tl k \<noteq> [] then None
      else readNat 0 k)"

subsection \<open>Strings: split, join, replace\<close>

definition bs :: char where
  "bs = CHR 0x5C"

definition dq :: char where
  "dq = CHR 0x22"

text \<open>\<open>parts.join(sep)\<close>.\<close>

fun join :: "string \<Rightarrow> string list \<Rightarrow> string" where
  "join sep [] = []"
| "join sep [p] = p"
| "join sep (p # q # ps) = p @ sep @ join sep (q # ps)"

text \<open>
  \<open>s.replace(/c/g, rep)\<close> for a pattern of one literal character. The replacement is
  inserted as it is written: the dollar patterns of \<open>String.prototype.replace\<close>
  (\<open>$$\<close>, \<open>$&\<close> and the like in \<open>rep\<close>) are left out of the model, here and in
  \<open>replace2\<close>.
\<close>

definition replace1 :: "char \<Rightarrow> string \<Rightarrow> string \<Rightarrow> string" where
  "replace1 c rep s = concat (map (\<lambda>x. if x = c then rep else [x]) s)"

text \<open>
  \<open>s.replace(/ab/g, rep)\<close> for a pattern of two literal characters: matches are taken
  leftmost first and do not overlap.
\<close>

fun replace2 :: "char \<Rightarrow> char \<Rightarrow> string \<Rightarrow> string \<Rightarrow> string" where
  "replace2 a b rep (x # y # s) =
     (if x = a \<and> y = b then rep @ replace2 a b rep s else x # replace2 a b rep (y # s))"
| "replace2 a b rep s = s"

text \<open>\<open>s.split('ab')\<close> for a separator of two characters.\<close>

fun split2 :: "char \<Rightarrow> char \<Rightarrow> string \<Rightarrow> string list" where
  "split2 a b (x # y # s) =
     (if x = a \<and> y = b then [] # split2 a b s
      else (case split2 a b (y # s) of [] \<Rightarrow> [[x]] | p # ps \<Rightarrow> (x # p) # ps))"
| "split2 a b s = [s]"

text \<open>\<open>s.split('.')\<close>: the pieces between the occurrences of one character.\<close>

fun split1 :: "char \<Rightarrow> string \<Rightarrow> string list" where
  "split1 c [] = [[]]"
| "split1 c (x # s) =
     (if x = c then [] # split1 c s
      else (case split1 c s of [] \<Rightarrow> [[x]] | p # ps \<Rightarrow> (x # p) # ps))"

subsection \<open>JSON.stringify\<close>

text \<open>
  The literal of a string (ECMAScript's QuoteJSONString): enclosed in double quotes, with
  the double quote and the backslash escaped by a backslash, the control characters
  written \<open>\b \t \n \f \r\<close> or \<open>\u00XX\<close>, and every other character kept.
\<close>

definition hexChar :: "nat \<Rightarrow> char" where
  "hexChar d = ''0123456789abcdef'' ! d"

definition quoteChar :: "char \<Rightarrow> string" where
  "quoteChar c =
     (if c = dq then [bs, dq]
      else if c = bs then [bs, bs]
      else if c = CHR 0x08 then [bs, CHR ''b'']
      else if c = CHR 0x09 then [bs, CHR ''t'']
      else if c = CHR 0x0A then [bs, CHR ''n'']
      else if c = CHR 0x0C then [bs, CHR ''f'']
      else if c = CHR 0x0D then [bs, CHR ''r'']
      else if (of_char c :: nat) < 32
        then [bs, CHR ''u'', CHR ''0'', CHR ''0'', hexChar (of_char c div 16), hexChar (of_char c mod 16)]
      else [c])"

definition quoteJSONString :: "string \<Rightarrow> string" where
  "quoteJSONString s = [dq] @ concat (map quoteChar s) @ [dq]"

text \<open>
  \<open>JSON.stringify(v)\<close> without indentation. At the top level \<open>undefined\<close> has no
  literal (the call returns \<open>undefined\<close>): \<open>None\<close>. Inside an array it is written
  \<open>null\<close>, and a property holding it is left out of its object.
\<close>

fun stringifyIn :: "jsval \<Rightarrow> string"
  and stringifyElems :: "jsval list \<Rightarrow> string list"
  and stringifyProps :: "(string \<times> jsval) list \<Rightarrow> string list" where
  "stringifyIn JUndefined = ''null''"
| "stringifyIn JNull = ''null''"
| "stringifyIn (JBool b) = (if b then ''true'' else ''false'')"
| "stringifyIn (JNum n) = showInt n"
| "stringifyIn (JStr s) = quoteJSONString s"
| "stringifyIn (JArr xs) = ''['' @ join '','' (stringifyElems xs) @ '']''"
| "stringifyIn (JObj kvs) = ''{'' @ join '','' (stringifyProps kvs) @ ''}''"
| "stringifyElems [] = []"
| "stringifyElems (x # xs) = stringifyIn x # stringifyElems xs"
| "stringifyProps [] = []"
| "stringifyProps ((k, v) # kvs) =
     (if v = JUndefined then stringifyProps kvs
      else (quoteJSONString k @ '':'' @ stringifyIn v) # stringifyProps kvs)"

definition JSON_stringify :: "jsval \<Rightarrow> string option" where
  "JSON_stringify v = (if v = JUndefined then None else Some (stringifyIn v))"

subsection \<open>Property access\<close>

text \<open>
  \<open>obj[key]\<close> on a value that is neither \<open>null\<close> nor \<open>undefined\<close>: the own
  properties of an object, the elements and the \<open>length\<close> of an array or a string.
  Inherited properties (methods of the prototypes) are not part of the model; reading one
  gives \<open>undefined\<close> here.
\<close>

fun getProp :: "jsval \<Rightarrow> string \<Rightarrow> jsval" where
  "getProp (JObj kvs) k = (case map_of kvs k of None \<Rightarrow> JUndefined | Some v \<Rightarrow> v)"
| "getProp (JArr xs) k =
     (case parseIndex k of
        Some i \<Rightarrow> if i < length xs then xs ! i else JUndefined
      | None \<Rightarrow> if k = ''length'' then JNum (int (length xs)) else JUndefined)"
| "getProp (JStr s) k =
     (case parseIndex k of
        Some i \<Rightarrow> if i < length s then JStr [s ! i] else JUndefined
      | None \<Rightarrow> if k = ''length'' then JNum (int (length s)) else JUndefined)"
| "getProp v k = JUndefined"

text \<open>\<open>key in Object(obj)\<close>, for the same properties.\<close>

fun hasProp :: "jsval \<Rightarrow> string \<Rightarrow> bool" where
  "hasProp (JObj kvs) k = (k \<in> set (map fst kvs))"
| "hasProp (JArr xs) k =
     (case parseIndex k of Some i \<Rightarrow> i < length xs | None \<Rightarrow> k = ''length'')"
| "hasProp (JStr s) k =
     (case parseIndex k of Some i \<Rightarrow> i < length s | None \<Rightarrow> k = ''length'')"
| "hasProp v k = False"

text \<open>\<open>obj[key] = v\<close> on an object or an array, as a new value.\<close>

fun assignKey :: "(string \<times> jsval) list \<Rightarrow> string \<Rightarrow> jsval \<Rightarrow> (string \<times> jsval) list" where
  "assignKey [] k v = [(k, v)]"
| "assignKey ((k', v') # kvs) k v =
     (if k' = k then (k, v) # kvs else (k', v') # assignKey kvs k v)"

text \<open>
  Writing past the end of an array leaves holes, which read as \<open>undefined\<close>. An array
  cannot carry a named property in this model: such a write leaves it as it is (the
  converter never makes one, see \<open>createDataRows\<close>).
\<close>

fun assignValue :: "jsval \<Rightarrow> string \<Rightarrow> jsval \<Rightarrow> jsval" where
  "assignValue (JObj kvs) k v = JObj (assignKey kvs k v)"
| "assignValue (JArr xs) k v =
     (case parseIndex k of
        Some i \<Rightarrow>
          if i < length xs then JArr (xs[i := v])
          else JArr (xs @ replicate (i - length xs) JUndefined @ [v])
      | None \<Rightarrow> JArr xs)"
| "assignValue obj k v = obj"

fun isObject :: "jsval \<Rightarrow> bool" where
  "isObject (JObj kvs) = True"
| "isObject (JArr xs) = True"
| "isObject v = False"

definition nullish :: "jsval \<Rightarrow> bool" where
  "nullish v = (v = JNull \<or> v = JUndefined)"

text \<open>\<open>Object.keys(v)\<close>: a \<open>TypeError\<close> on \<open>null\<close> and \<open>undefined\<close>.\<close>

fun Object_keys :: "jsval \<Rightarrow> error + string list" where
  "Object_keys JUndefined = Inl TypeError"
| "Object_keys JNull = Inl TypeError"
| "Object_keys (JObj kvs) = Inr (map fst kvs)"
| "Object_keys (JArr xs) = Inr (map showNat [0..<length xs])"
| "Object_keys (JStr s) = Inr (map showNat [0..<length s])"
| "Object_keys v = Inr []"

text \<open>\<open>Object.getOwnPropertyNames(v).length\<close> for a truthy value.\<close>

fun ownPropertyCount :: "jsval \<Rightarrow> nat" where
  "ownPropertyCount (JObj kvs) = length kvs"
| "ownPropertyCount (JArr xs) = length xs + 1"
| "ownPropertyCount (JStr s) = length s + 1"
| "ownPropertyCount v = 0"

section \<open>The external modules\<close>

subsection \<open>lodash.get, lodash.set, lodash.clonedeep\<close>

text \<open>
  The modules are not part of the repository; they are modelled from their documented
  behaviour, for paths written with dots (the bracket notation \<open>a[0]\<close> is left out).
  A path that is itself a property of the object is one key; otherwise it is split at
  its dots.
\<close>

definition isKey :: "string \<Rightarrow> jsval \<Rightarrow> bool" where
  "isKey path obj = (CHR ''.'' \<notin> set path \<or> (\<not> nullish obj \<and> hasProp obj path))"

definition stringToPath :: "string \<Rightarrow> string list" where
  "stringToPath path = split1 (CHR ''.'') path"

definition castPath :: "string \<Rightarrow> jsval \<Rightarrow> string list" where
  "castPath path obj = (if isKey path obj then [path] else stringToPath path)"

fun baseGet :: "jsval \<Rightarrow> string list \<Rightarrow> jsval" where
  "baseGet obj [] = obj"
| "baseGet obj (k # ks) = (if nullish obj then JUndefined else baseGet (getProp obj k) ks)"

definition lodashGet :: "jsval \<Rightarrow> string \<Rightarrow> jsval \<Rightarrow> jsval" where
  "lodashGet obj path defaultValue =
     (let result = (if nullish obj then JUndefined else baseGet obj (castPath path obj))
      in if result = JUndefined then defaultValue else result)"

definition isIndex :: "string \<Rightarrow> bool" where
  "isIndex k = (parseIndex k \<noteq> None)"

fun baseSet :: "jsval \<Rightarrow> string list \<Rightarrow> jsval \<Rightarrow> jsval" where
  "baseSet obj [] v = obj"
| "baseSet obj [k] v = assignValue obj k v"
| "baseSet obj (k # k' # ks) v =
     (let objValue = getProp obj k;
          newValue = (if isObject objValue then objValue
                      else if isIndex k' then JArr [] else JObj [])
      in assignValue obj k (baseSet newValue (k' # ks) v))"

definition lodashSet :: "jsval \<Rightarrow> string \<Rightarrow> jsval \<Rightarrow> jsval" where
  "lodashSet obj path v = (if isObject obj then baseSet obj (castPath path obj) v else obj)"

text \<open>
  Values here are immutable, so a deep copy is the value itself: what \<open>lodashSet\<close>
  returns is a new row, and the row it was given, with everything it shares with
  other rows, stays as it was.
\<close>

definition lodashCloneDeep :: "jsval \<Rightarrow> jsval" where
  "lodashCloneDeep v = v"

subsection \<open>lodash.uniq, lodash.flatten\<close>

text \<open>\<open>lodashUniq\<close> keeps the first occurrence of every element.\<close>

fun baseUniq :: "'a list \<Rightarrow> 'a list \<Rightarrow> 'a list" where
  "baseUniq result [] = result"
| "baseUniq result (x # xs) = baseUniq (if x \<in> set result then result else result @ [x]) xs"

definition lodashUniq :: "'a list \<Rightarrow> 'a list" where
  "lodashUniq xs = baseUniq [] xs"

text \<open>\<open>lodashFlatten\<close> flattens an array of arrays by one level.\<close>

definition lodashFlatten :: "'a list list \<Rightarrow> 'a list" where
  "lodashFlatten xss = concat xss"

text \<open>
  Applied to a value that is not an array, \<open>lodashFlatten\<close> returns the empty array
  (unless the value has a truthy \<open>length\<close> property of its own, which is left out of
  the model), so \<open>Object.keys\<close> of the result is empty.
\<close>

definition lodashFlattenNonArray :: "jsval \<Rightarrow> jsval list" where
  "lodashFlattenNonArray v = []"

subsection \<open>flat\<close>

text \<open>
  \<open>flatten(target)\<close> of the module \<open>flat\<close>, with its default options: it walks the
  properties depth first and assigns every value that is not a non-empty object or array
  to the output under the dotted path that leads to it.
\<close>

definition newKey :: "string \<Rightarrow> string \<Rightarrow> string" where
  "newKey prev key = (if prev \<noteq> [] then prev @ ''.'' @ key else key)"

fun stepValue :: "string \<Rightarrow> jsval \<Rightarrow> (string \<times> jsval) list"
  and stepObject :: "string \<Rightarrow> (string \<times> jsval) list \<Rightarrow> (string \<times> jsval) list"
  and stepArray :: "string \<Rightarrow> nat \<Rightarrow> jsval list \<Rightarrow> (string \<times> jsval) list" where
  "stepValue nk (JObj kvs) = (if kvs \<noteq> [] then stepObject nk kvs else [(nk, JObj kvs)])"
| "stepValue nk (JArr xs) = (if xs \<noteq> [] then stepArray nk 0 xs else [(nk, JArr xs)])"
| "stepValue nk JUndefined = [(nk, JUndefined)]"
| "stepValue nk JNull = [(nk, JNull)]"
| "stepValue nk (JBool b) = [(nk, JBool b)]"
| "stepValue nk (JNum n) = [(nk, JNum n)]"
| "stepValue nk (JStr s) = [(nk, JStr s)]"
| "stepObject prev [] = []"
| "stepObject prev ((key, v) # kvs) = stepValue (newKey prev key) v @ stepObject prev kvs"
| "stepArray prev i [] = []"
| "stepArray prev i (x # xs) = stepValue (newKey prev (showNat i)) x @ stepArray prev (Suc i) xs"

text \<open>The assignments \<open>output[newKey] = value\<close>, in the order \<open>step\<close> makes them.\<close>

fun step :: "jsval \<Rightarrow> (string \<times> jsval) list" where
  "step (JObj kvs) = stepObject [] kvs"
| "step (JArr xs) = stepArray [] 0 xs"
| "step (JStr s) = map (\<lambda>i. (showNat i, JStr [s ! i])) [0..<length s]"
| "step v = []"

definition flat :: "jsval \<Rightarrow> error + jsval" where
  "flat target =
     (if nullish target then Inl TypeError
      else Inr (JObj (foldl (\<lambda>output (k, v). assignKey output k v) [] (step target))))"

section \<open>The converter\<close>

subsection \<open>Field specifications and parameters\<close>

text \<open>
  An entry of \<open>params.fields\<close> is a path string, or an object with an optional
  \<open>label\<close>, a \<open>value\<close> (a path string, a function of the row, the field's
  \<open>{label, default}\<close> and all rows, or neither) and an optional \<open>default\<close>. A
  function is one that returns; a \<open>default\<close> that is present may hold any value.
\<close>

type_synonym fieldMeta = "string option \<times> jsval"

datatype fieldValue =
    PathValue string
  | FunctionValue "jsval \<Rightarrow> fieldMeta \<Rightarrow> jsval list \<Rightarrow> jsval"
  | NoValue

datatype field =
    FieldString string
  | FieldObject "string option" fieldValue "jsval option"

text \<open>
  \<open>Json2CsvParams\<close> as the caller passes it: \<open>None\<close> is an option left out. The
  three flags the code reads only for their truthiness are booleans. The entry
  \<open>fields\<close> is written \<open>fields'\<close>, since the record package keeps the plain name
  for itself.
\<close>

record params =
  fields' :: "field list option"
  fieldNames :: "string list option"
  del :: "string option"
  defaultValue :: jsval
  quotes :: "string option"
  doubleQuotes :: "string option"
  hasCSVColumnTitle :: "bool option"
  eol :: "string option"
  newLine :: "string option"
  flatten :: bool
  unwindPath :: "string option"
  excelStrings :: bool
  includeEmptyRows :: bool

text \<open>\<open>params || {}\<close>: no option given.\<close>

definition noParams :: params where
  "noParams = \<lparr> fields' = None, fieldNames = None, del = None, defaultValue = JUndefined,
     quotes = None, doubleQuotes = None, hasCSVColumnTitle = None, eol = None,
     newLine = None, flatten = False, unwindPath = None, excelStrings = False,
     includeEmptyRows = False \<rparr>"

text \<open>
  A column name after normalization: a string, or what \<open>field.label || field.value\<close>
  leaves when the field has neither a label nor a path (its function, or \<open>undefined\<close>).
\<close>

datatype columnName =
    NameString string
  | NameFunction
  | NameUndefined

text \<open>
  \<open>normalizeParams\<close> fills the object it is given; the model returns the filled
  record, with the options it leaves alone copied.
\<close>

record normalizedParams =
  n_fields :: "field list"
  n_fieldNames :: "columnName list"
  n_del :: string
  n_defaultValue :: jsval
  n_quotes :: string
  n_doubleQuotes :: string
  n_hasCSVColumnTitle :: bool
  n_eol :: string
  n_newLine :: "string option"
  n_flatten :: bool
  n_unwindPath :: "string option"
  n_excelStrings :: bool
  n_includeEmptyRows :: bool

subsection \<open>The messages of the errors thrown\<close>

definition dataKindMessage :: string where
  "dataKindMessage = ''Data needs to be an object or array''"

definition fieldsMissingMessage :: string where
  "fieldsMissingMessage =
     ''params should include '' @ [dq] @ ''fields'' @ [dq] @ '' and/or non-empty '' @
     [dq] @ ''data'' @ [dq] @ '' array of objects''"

definition fieldNamesMessage :: string where
  "fieldNamesMessage =
     ''fieldNames and fields should be of the same length, if fieldNames is provided.''"

subsection \<open>normalizeData\<close>

fun mapFlat :: "jsval list \<Rightarrow> error + jsval list" where
  "mapFlat [] = Inr []"
| "mapFlat (x # xs) =
     (case flat x of
        Inl e \<Rightarrow> Inl e
      | Inr y \<Rightarrow> (case mapFlat xs of Inl e \<Rightarrow> Inl e | Inr ys \<Rightarrow> Inr (y # ys)))"

definition normalizeData :: "jsval \<Rightarrow> params \<Rightarrow> error + jsval list" where
  "normalizeData data params =
     (if typeof data \<noteq> ''object'' then Inl (Error dataKindMessage)
      else
        let data1 = (if truthy data then data else JArr []);
            rows = (case data1 of JArr xs \<Rightarrow> xs | _ \<Rightarrow> [data1])
        in if flatten params then mapFlat rows else Inr rows)"

subsection \<open>normalizeParams\<close>

fun mapKeys :: "jsval list \<Rightarrow> error + string list list" where
  "mapKeys [] = Inr []"
| "mapKeys (item # items) =
     (case Object_keys item of
        Inl e \<Rightarrow> Inl e
      | Inr ks \<Rightarrow> (case mapKeys items of Inl e \<Rightarrow> Inl e | Inr kss \<Rightarrow> Inr (ks # kss)))"

text \<open>
  Lines 80 to 103: \<open>params.fields\<close> after the inference from the data;
  \<open>Inr None\<close> when it is left \<open>undefined\<close>.
\<close>

definition resolveFields :: "params \<Rightarrow> jsval \<Rightarrow> error + field list option" where
  "resolveFields params data =
     (if fields' params = None \<and> isArray data \<and>
         (case data of JArr xs \<Rightarrow> xs = [] \<or> typeof (hd xs) \<noteq> ''object'' | _ \<Rightarrow> False)
      then Inl (Error fieldsMissingMessage)
      else
        case fields' params of
          Some fs \<Rightarrow> Inr (Some fs)
        | None \<Rightarrow>
            (case data of
               JArr items \<Rightarrow>
                 (case mapKeys items of
                    Inl e \<Rightarrow> Inl e
                  | Inr dataFields \<Rightarrow>
                      Inr (Some (map FieldString (lodashUniq (lodashFlatten dataFields)))))
             | _ \<Rightarrow>
                 if flatten params
                 then (case Object_keys (JArr (lodashFlattenNonArray data)) of
                         Inl e \<Rightarrow> Inl e
                       | Inr dataFields \<Rightarrow> Inr (Some (map FieldString dataFields)))
                 else Inr None))"

text \<open>The callback of \<open>params.fields.map\<close>: the name of the field at index \<open>i\<close>.\<close>

fun fieldName :: "string list option \<Rightarrow> field \<Rightarrow> nat \<Rightarrow> columnName" where
  "fieldName (Some names) (FieldString s) i =
     (if i < length names then NameString (names ! i) else NameUndefined)"
| "fieldName None (FieldString s) i = NameString s"
| "fieldName names (FieldObject label v d) i =
     (case label of
        Some l \<Rightarrow> if l \<noteq> [] then NameString l else
          (case v of PathValue p \<Rightarrow> NameString p | FunctionValue g \<Rightarrow> NameFunction
           | NoValue \<Rightarrow> NameUndefined)
      | None \<Rightarrow>
          (case v of PathValue p \<Rightarrow> NameString p | FunctionValue g \<Rightarrow> NameFunction
           | NoValue \<Rightarrow> NameUndefined))"

text \<open>
  Lines 110 to 126: the names and the defaults, once the field list \<open>fs\<close> is known.
  \<open>Array(3).join(q)\<close> joins three empty slots with \<open>q\<close>.
\<close>

definition withDefaults :: "params \<Rightarrow> field list \<Rightarrow> normalizedParams" where
  "withDefaults params fs =
     (let q = (case quotes params of Some s \<Rightarrow> s | None \<Rightarrow> [dq])
      in \<lparr>
        n_fields = fs,
        n_fieldNames = map (\<lambda>(f, i). fieldName (fieldNames params) f i) (zip fs [0..<length fs]),
        n_del = (case del params of Some s \<Rightarrow> if s \<noteq> [] then s else '','' | None \<Rightarrow> '',''),
        n_defaultValue = defaultValue params,
        n_quotes = q,
        n_doubleQuotes = (case doubleQuotes params of Some s \<Rightarrow> s
                          | None \<Rightarrow> join q (replicate 3 [])),
        n_hasCSVColumnTitle = (hasCSVColumnTitle params \<noteq> Some False),
        n_eol = (case eol params of Some s \<Rightarrow> s | None \<Rightarrow> []),
        n_newLine = newLine params,
        n_flatten = flatten params,
        n_unwindPath = unwindPath params,
        n_excelStrings = excelStrings params,
        n_includeEmptyRows = includeEmptyRows params \<rparr>)"

text \<open>
  With \<open>params.fields\<close> left \<open>undefined\<close>, reading its \<open>length\<close> or calling its
  \<open>map\<close> throws a \<open>TypeError\<close>.
\<close>

definition normalizeParams :: "params \<Rightarrow> jsval \<Rightarrow> error + normalizedParams" where
  "normalizeParams params data =
     (case resolveFields params data of
        Inl e \<Rightarrow> Inl e
      | Inr None \<Rightarrow> Inl TypeError
      | Inr (Some fs) \<Rightarrow>
          if (case fieldNames params of Some names \<Rightarrow> length names \<noteq> length fs | None \<Rightarrow> False)
          then Inl (Error fieldNamesMessage)
          else Inr (withDefaults params fs))"

subsection \<open>createColumnTitles\<close>

text \<open>
  \<open>JSON.stringify\<close> of a name that is a function or \<open>undefined\<close> returns
  \<open>undefined\<close>, and the call of \<open>replace\<close> on it throws a \<open>TypeError\<close>.
\<close>

fun stringifyName :: "columnName \<Rightarrow> string option" where
  "stringifyName (NameString s) = JSON_stringify (JStr s)"
| "stringifyName NameFunction = None"
| "stringifyName NameUndefined = None"

text \<open>Line 144: the header cell of a name.\<close>

definition titleText :: "normalizedParams \<Rightarrow> columnName \<Rightarrow> string option" where
  "titleText params element =
     (case stringifyName element of
        None \<Rightarrow> None
      | Some lit \<Rightarrow> Some (replace1 dq (n_quotes params) lit))"

fun titlesLoop :: "normalizedParams \<Rightarrow> string \<Rightarrow> columnName list \<Rightarrow> error + string" where
  "titlesLoop params str [] = Inr str"
| "titlesLoop params str (element # rest) =
     (let str1 = (if str \<noteq> [] then str @ n_del params else str)
      in case titleText params element of
           None \<Rightarrow> Inl TypeError
         | Some t \<Rightarrow> titlesLoop params (str1 @ t) rest)"

definition createColumnTitles :: "normalizedParams \<Rightarrow> error + string" where
  "createColumnTitles params =
     (if n_hasCSVColumnTitle params then titlesLoop params [] (n_fieldNames params)
      else Inr [])"

subsection \<open>replaceQuotationMarks\<close>

definition replaceQuotationMarks :: "string \<Rightarrow> string \<Rightarrow> string" where
  "replaceQuotationMarks stringifiedElement q =
     (let lastCharIndex = length stringifiedElement - 1
      in if stringifiedElement \<noteq> [] \<and> hd stringifiedElement = dq \<and>
            stringifiedElement ! lastCharIndex = dq
         then
           let splitElement = map (\<lambda>c. [c]) stringifiedElement
           in concat (splitElement[0 := q, lastCharIndex := q])
         else stringifiedElement)"

subsection \<open>createDataRows\<close>

text \<open>The callback of \<open>data.forEach\<close>: what it pushes onto \<open>dataRows\<close>.\<close>

definition unwindElement :: "string \<Rightarrow> jsval list \<Rightarrow> jsval \<Rightarrow> jsval list" where
  "unwindElement path dataRows dataEl =
     (case lodashGet dataEl path JUndefined of
        JArr unwindArray \<Rightarrow>
          if unwindArray \<noteq> []
          then foldl (\<lambda>rows unwindEl. rows @ [lodashSet (lodashCloneDeep dataEl) path unwindEl])
                 dataRows unwindArray
          else dataRows @ [lodashSet (lodashCloneDeep dataEl) path JUndefined]
      | _ \<Rightarrow> dataRows @ [dataEl])"

definition createDataRows :: "jsval list \<Rightarrow> normalizedParams \<Rightarrow> jsval list" where
  "createDataRows data params =
     (case n_unwindPath params of
        Some path \<Rightarrow> if path \<noteq> [] then foldl (unwindElement path) [] data else data
      | None \<Rightarrow> data)"

subsection \<open>createColumnContent\<close>

text \<open>The default in force for a field: its own \<open>default\<close> when it has one.\<close>

fun fieldDefault :: "normalizedParams \<Rightarrow> field \<Rightarrow> jsval" where
  "fieldDefault params (FieldObject label v (Some d)) = d"
| "fieldDefault params f = n_defaultValue params"

text \<open>Lines 193 to 212: \<open>val\<close> once the default has been substituted.\<close>

fun fieldVal :: "normalizedParams \<Rightarrow> jsval list \<Rightarrow> jsval \<Rightarrow> field \<Rightarrow> jsval" where
  "fieldVal params data dataElement fieldElement =
     (let defaultValue = fieldDefault params fieldElement;
          val = (case fieldElement of
                   FieldString path \<Rightarrow>
                     if path \<noteq> [] then lodashGet dataElement path defaultValue else JUndefined
                 | FieldObject label (PathValue path) d \<Rightarrow> lodashGet dataElement path defaultValue
                 | FieldObject label (FunctionValue g) d \<Rightarrow>
                     g dataElement (label, case d of Some x \<Rightarrow> x | None \<Rightarrow> JUndefined) data
                 | FieldObject label NoValue d \<Rightarrow> JUndefined)
      in if val = JNull \<or> val = JUndefined then defaultValue else val)"

text \<open>Lines 214 to 232: what the field adds to \<open>line\<close> before the delimiter.\<close>

definition cellText :: "normalizedParams \<Rightarrow> jsval \<Rightarrow> string" where
  "cellText params val =
     (case JSON_stringify val of
        None \<Rightarrow> []
      | Some s0 \<Rightarrow>
          let s1 = (if typeof val = ''object'' then quoteJSONString s0 else s0);
              s2 = (if n_quotes params \<noteq> [dq] then replaceQuotationMarks s1 (n_quotes params)
                    else s1);
              s3 = replace2 bs bs [bs] s2
          in if n_excelStrings params \<and> typeof val = ''string''
             then [dq, CHR ''='', dq] @ s3 @ [dq, dq] else s3)"

text \<open>Lines 189 to 245: the line of a row that is rendered.\<close>

definition rowLine :: "normalizedParams \<Rightarrow> jsval list \<Rightarrow> jsval \<Rightarrow> string" where
  "rowLine params data dataElement =
     (let line0 = concat (map (\<lambda>fieldElement.
                     cellText params (fieldVal params data dataElement fieldElement) @ n_del params)
                   (n_fields params));
          line1 = take (length line0 - 1) line0;
          line2 = join [bs, bs] (map (replace2 bs dq (n_doubleQuotes params)) (split2 bs bs line1))
      in replace2 bs bs [bs] line2)"

text \<open>Line 188: whether a row is rendered at all.\<close>

definition rendered :: "normalizedParams \<Rightarrow> jsval \<Rightarrow> bool" where
  "rendered params dataElement =
     (truthy dataElement \<and> (ownPropertyCount dataElement > 0 \<or> n_includeEmptyRows params))"

text \<open>
  \<open>os.EOL\<close> is the platform's line ending; it is a parameter of the model.
\<close>

definition lineEnd :: "string \<Rightarrow> normalizedParams \<Rightarrow> string" where
  "lineEnd os_EOL params =
     (case n_newLine params of
        Some s \<Rightarrow> if s \<noteq> [] then s else if os_EOL \<noteq> [] then os_EOL else [CHR 0x0A]
      | None \<Rightarrow> if os_EOL \<noteq> [] then os_EOL else [CHR 0x0A])"

text \<open>The callback of \<open>dataRows.forEach\<close>: \<open>output\<close> after one row.\<close>

definition addRow :: "string \<Rightarrow> normalizedParams \<Rightarrow> jsval list \<Rightarrow> string \<Rightarrow> jsval \<Rightarrow> string" where
  "addRow os_EOL params data output dataElement =
     (if rendered params dataElement
      then
        let line = rowLine params data dataElement
        in if output \<noteq> [] then output @ lineEnd os_EOL params @ line @ n_eol params
           else line @ n_eol params
      else output)"

definition createColumnContent ::
    "string \<Rightarrow> jsval list \<Rightarrow> string \<Rightarrow> normalizedParams \<Rightarrow> string" where
  "createColumnContent os_EOL data output params =
     foldl (addRow os_EOL params data) output (createDataRows data params)"

subsection \<open>The exported function\<close>

definition convert :: "string \<Rightarrow> jsval \<Rightarrow> params \<Rightarrow> error + string" where
  "convert os_EOL data params =
     (case normalizeData data params of
        Inl e \<Rightarrow> Inl e
      | Inr normalizedData \<Rightarrow>
          (case normalizeParams params data of
             Inl e \<Rightarrow> Inl e
           | Inr normalized \<Rightarrow>
               (case createColumnTitles normalized of
                  Inl e \<Rightarrow> Inl e
                | Inr titles \<Rightarrow>
                    Inr (createColumnContent os_EOL normalizedData titles normalized))))"

section \<open>Inputs used in the examples\<close>

text \<open>The rows \<open>[{a:1},{a:2}]\<close> and the parameters \<open>{fields:['a']}\<close>.\<close>

definition rowsA :: jsval where
  "rowsA = JArr [JObj [(''a'', JNum 1)], JObj [(''a'', JNum 2)]]"

definition paramsA :: params where
  "paramsA = noParams \<lparr> fields' := Some [FieldString ''a''] \<rparr>"

text \<open>
  The parameters of the repository's test of the data kind: no \<open>fields\<close>, and two
  \<open>fieldNames\<close>.
\<close>

definition paramsTwoNames :: params where
  "paramsTwoNames = noParams \<lparr> fieldNames := Some [''test'', ''blah''] \<rparr>"

text \<open>The line feed, the line terminator of the examples.\<close>

definition lf :: string where
  "lf = [CHR 0x0A]"

text \<open>\<open>{fields:['a'], fieldNames:['x','y']}\<close>: two names for one field.\<close>

definition paramsANames :: params where
  "paramsANames = paramsA \<lparr> fieldNames := Some [''x'', ''y''] \<rparr>"













definition paramsFlatten :: params where
  "paramsFlatten = noParams \<lparr> flatten := True \<rparr>"

text \<open>The field lists \<open>['a','b']\<close> and \<open>['a','b','c']\<close>.\<close>

definition fieldsAB :: "field list" where
  "fieldsAB = [FieldString ''a'', FieldString ''b'']"

definition fieldsABC :: "field list" where
  "fieldsABC = [FieldString ''a'', FieldString ''b'', FieldString ''c'']"

section \<open>Notions the claims are stated with\<close>






section \<open>Facts about the parts of the model\<close>

subsection \<open>The normalized parameters\<close>

lemma withDefaults_sel:
  "n_fields (withDefaults params fs) = fs"
  "n_fieldNames (withDefaults params fs) =
     map (\<lambda>(f, i). fieldName (fieldNames params) f i) (zip fs [0..<length fs])"
  "n_del (withDefaults params fs) =
     (case del params of Some s \<Rightarrow> if s \<noteq> [] then s else '','' | None \<Rightarrow> '','')"
  "n_defaultValue (withDefaults params fs) = defaultValue params"
  "n_quotes (withDefaults params fs) = (case quotes params of Some s \<Rightarrow> s | None \<Rightarrow> [dq])"
  "n_hasCSVColumnTitle (withDefaults params fs) = (hasCSVColumnTitle params \<noteq> Some False)"
  "n_eol (withDefaults params fs) = (case eol params of Some s \<Rightarrow> s | None \<Rightarrow> [])"
  "n_newLine (withDefaults params fs) = newLine params"
  "n_unwindPath (withDefaults params fs) = unwindPath params"
  "n_excelStrings (withDefaults params fs) = excelStrings params"
  "n_includeEmptyRows (withDefaults params fs) = includeEmptyRows params"
  by (simp_all add: withDefaults_def Let_def)

lemma join_three_empty: "join q (replicate 3 []) = q @ q"
  by (simp add: numeral_3_eq_3)

lemma normalizeParams_Inr:
  assumes "normalizeParams params data = Inr np"
  obtains fs where "resolveFields params data = Inr (Some fs)" and "np = withDefaults params fs"
  using assms
  by (auto simp: normalizeParams_def split: sum.splits option.splits if_splits)

lemma normalizeParams_A:
  "normalizeParams paramsA rowsA = Inr (withDefaults paramsA [FieldString ''a''])"
  by (simp add: normalizeParams_def resolveFields_def paramsA_def noParams_def rowsA_def)

subsection \<open>Which errors a stage can raise\<close>

lemma mapFlat_error: "mapFlat rows = Inl e \<Longrightarrow> e = TypeError"
  by (induction rows arbitrary: e) (auto simp: flat_def split: sum.splits if_splits)

lemma mapKeys_error: "mapKeys items = Inl e \<Longrightarrow> e = TypeError"
proof (induction items arbitrary: e)
  case Nil
  then show ?case by simp
next
  case (Cons item items)
  then show ?case
    by (cases item) (auto split: sum.splits)
qed

lemma normalizeData_error:
  "normalizeData data params = Inl e \<Longrightarrow>
     e = TypeError \<or> (e = Error dataKindMessage \<and> typeof data \<noteq> ''object'')"
  by (auto simp: normalizeData_def Let_def split: if_splits dest: mapFlat_error)

lemma resolveFields_error:
  "resolveFields params data = Inl e \<Longrightarrow> e = TypeError \<or> e = Error fieldsMissingMessage"
  unfolding resolveFields_def
  by (auto split: if_splits option.splits jsval.splits sum.splits dest: mapKeys_error)

lemma normalizeParams_error:
  "normalizeParams params data = Inl e \<Longrightarrow>
     e = TypeError \<or> e = Error fieldsMissingMessage \<or> e = Error fieldNamesMessage"
  unfolding normalizeParams_def
  by (auto split: sum.splits option.splits if_splits dest: resolveFields_error)

lemma titlesLoop_error: "titlesLoop params str names = Inl e \<Longrightarrow> e = TypeError"
  by (induction names arbitrary: str) (auto simp: Let_def split: option.splits)

lemma createColumnTitles_error: "createColumnTitles params = Inl e \<Longrightarrow> e = TypeError"
  by (auto simp: createColumnTitles_def split: if_splits dest: titlesLoop_error)

lemma messages_distinct:
  "dataKindMessage \<noteq> fieldsMissingMessage"
  "dataKindMessage \<noteq> fieldNamesMessage"
  "fieldsMissingMessage \<noteq> fieldNamesMessage"
  by (simp_all add: dataKindMessage_def fieldsMissingMessage_def fieldNamesMessage_def)

lemma convert_error:
  assumes "convert os_EOL data params = Inl e"
  shows "e = TypeError \<or> e = Error fieldsMissingMessage \<or> e = Error fieldNamesMessage \<or>
         (e = Error dataKindMessage \<and> typeof data \<noteq> ''object'')"
proof (cases "normalizeData data params")
  case (Inl e1)
  with assms have "e = e1" by (simp add: convert_def)
  with Inl normalizeData_error show ?thesis by blast
next
  case d: (Inr rows)
  show ?thesis
  proof (cases "normalizeParams params data")
    case (Inl e1)
    with assms d have "e = e1" by (simp add: convert_def)
    with Inl normalizeParams_error show ?thesis by blast
  next
    case p: (Inr np)
    show ?thesis
    proof (cases "createColumnTitles np")
      case (Inl e1)
      with assms d p have "e = e1" by (simp add: convert_def)
      with Inl createColumnTitles_error show ?thesis by blast
    next
      case (Inr t)
      with assms d p show ?thesis by (simp add: convert_def)
    qed
  qed
qed

subsection \<open>The header loop, and null data\<close>



subsection \<open>The loop over the rows\<close>






subsection \<open>The text of a cell\<close>






subsection \<open>The cell of a number\<close>









subsection \<open>Counting a character through the escaping passes\<close>











subsection \<open>Reading a path that was just written\<close>





















subsection \<open>The loop of the row expander\<close>




subsection \<open>The keys of a flattened row, and the inferred fields\<close>












lemma distinct_baseUniq: "distinct acc \<Longrightarrow> distinct (baseUniq acc xs)"
  by (induction xs arbitrary: acc) auto






section \<open>The claims\<close>

subsection \<open>C1: the delimiters of a line\<close>




subsection \<open>C2: the row expander\<close>



subsection \<open>C3: the document of two numeric rows\<close>



subsection \<open>C4: the layout of the document\<close>




subsection \<open>C5: a cell whose value is undefined\<close>




subsection \<open>C6: the error for data that is not an object\<close>

text \<open>
  C6 reads: the error \<open>Data needs to be an object or array\<close> is raised exactly when the
  data is neither an object nor an array. \<open>null\<close> is neither, and it is not rejected:
\<close>

theorem convert_null_no_data_kind_error:
  "\<not> isObject JNull \<and> \<not> isArray JNull \<and> convert lf JNull paramsA \<noteq> Inl (Error dataKindMessage)"
  by code_simp

text \<open>
  C6 as amended: \<open>convert\<close> raises the error \<open>Data needs to be an object or array\<close>
  exactly when \<open>typeof data\<close> is not \<open>'object'\<close> (the data is \<open>undefined\<close>, a boolean, a
  number or a string; \<open>null\<close>, whose \<open>typeof\<close> is \<open>'object'\<close>, is let through), and it
  does so whatever the parameters are, before they are normalized and before any row is
  processed.
\<close>

theorem convert_data_kind_error:
  "(convert os_EOL data params = Inl (Error dataKindMessage)) = (typeof data \<noteq> ''object'')"
proof
  assume "convert os_EOL data params = Inl (Error dataKindMessage)"
  from convert_error [OF this] show "typeof data \<noteq> ''object''"
    using messages_distinct by auto
next
  assume "typeof data \<noteq> ''object''"
  then have "normalizeData data params = Inl (Error dataKindMessage)"
    by (simp add: normalizeData_def)
  then show "convert os_EOL data params = Inl (Error dataKindMessage)"
    by (simp add: convert_def)
qed

text \<open>
  The repository's test: a string as data is rejected with this error although the
  parameters name two columns and no field.
\<close>

theorem convert_data_kind_error_witness:
  "typeof (JStr ''not an object'') \<noteq> ''object'' \<and>
   convert lf (JStr ''not an object'') paramsTwoNames = Inl (Error dataKindMessage)"
  using convert_data_kind_error [of lf "JStr ''not an object''" paramsTwoNames] by simp

subsection \<open>C7: fieldNames of the wrong length\<close>

text \<open>
  C7: if a \<open>fieldNames\<close> array is supplied whose length differs from the length of the
  resolved field list, \<open>normalizeParams\<close> raises the error whose message is
  \<open>fieldNames and fields should be of the same length, if fieldNames is provided.\<close>
  The error is raised before a title or a row is rendered; it is the error of
  \<open>convert\<close> whenever the data has passed \<open>normalizeData\<close>, the stage before, and
  \<open>convert\<close> returns no document in any case.
\<close>

theorem fieldNames_length_error:
  assumes "resolveFields params data = Inr (Some fs)"
    and "fieldNames params = Some names"
    and "length names \<noteq> length fs"
  shows "normalizeParams params data = Inl (Error fieldNamesMessage) \<and>
         fieldNamesMessage =
           ''fieldNames and fields should be of the same length, if fieldNames is provided.'' \<and>
         (\<forall>rows. normalizeData data params = Inr rows \<longrightarrow>
            convert os_EOL data params = Inl (Error fieldNamesMessage)) \<and>
         (\<forall>doc. convert os_EOL data params \<noteq> Inr doc)"
proof -
  from assms have p: "normalizeParams params data = Inl (Error fieldNamesMessage)"
    by (simp add: normalizeParams_def)
  have "convert os_EOL data params \<noteq> Inr doc" for doc
    using p by (cases "normalizeData data params") (simp_all add: convert_def)
  with p show ?thesis
    by (simp add: convert_def fieldNamesMessage_def)
qed

text \<open>Two names for the one field \<open>a\<close>.\<close>

theorem fieldNames_length_error_witness:
  "resolveFields paramsANames rowsA = Inr (Some [FieldString ''a'']) \<and>
   fieldNames paramsANames = Some [''x'', ''y''] \<and>
   normalizeData rowsA paramsANames = Inr [JObj [(''a'', JNum 1)], JObj [(''a'', JNum 2)]] \<and>
   convert lf rowsA paramsANames = Inl (Error fieldNamesMessage)"
proof -
  have d: "normalizeData rowsA paramsANames = Inr [JObj [(''a'', JNum 1)], JObj [(''a'', JNum 2)]]"
    by (simp add: normalizeData_def rowsA_def paramsANames_def paramsA_def noParams_def)
  have f: "resolveFields paramsANames rowsA = Inr (Some [FieldString ''a''])"
    by (simp add: resolveFields_def rowsA_def paramsANames_def paramsA_def noParams_def)
  have n: "fieldNames paramsANames = Some [''x'', ''y'']"
    by (simp add: paramsANames_def)
  have l: "length [''x'', ''y''] \<noteq> length [FieldString ''a'']" by simp
  from fieldNames_length_error [OF f n l, of lf] d f n show ?thesis by simp
qed

subsection \<open>C8: the default of doubleQuotes\<close>

text \<open>
  C8 reads: when \<open>doubleQuotes\<close> is left out, the replacement for an embedded quote is
  the quote character three times. With the defaults it is not:
\<close>

theorem default_doubleQuotes_not_tripled:
  "normalizeParams paramsA rowsA = Inr (withDefaults paramsA [FieldString ''a'']) \<and>
   n_doubleQuotes (withDefaults paramsA [FieldString ''a'']) \<noteq>
     concat (replicate 3 (n_quotes (withDefaults paramsA [FieldString ''a''])))"
proof -
  have d: "n_doubleQuotes (withDefaults paramsA [FieldString ''a'']) = [dq, dq]"
    by (simp add: withDefaults_def Let_def paramsA_def noParams_def numeral_3_eq_3)
  have q: "n_quotes (withDefaults paramsA [FieldString ''a'']) = [dq]"
    by (simp add: withDefaults_sel paramsA_def noParams_def)
  show ?thesis
    using normalizeParams_A by (simp add: d q numeral_3_eq_3)
qed

text \<open>
  C8 as amended: when \<open>doubleQuotes\<close> is left out, the replacement for an embedded quote
  is the configured quote string twice (\<open>Array(3).join(quotes)\<close> puts the quote string
  between three empty slots).
\<close>

theorem default_doubleQuotes_doubled:
  assumes "doubleQuotes params = None" and "normalizeParams params data = Inr np"
  shows "n_doubleQuotes np = n_quotes np @ n_quotes np"
proof -
  from assms(2) obtain fs where "np = withDefaults params fs"
    by (rule normalizeParams_Inr)
  with assms(1) show ?thesis
    by (simp add: withDefaults_def Let_def join_three_empty)
qed

text \<open>With the defaults the replacement is \<open>""\<close>.\<close>

theorem default_doubleQuotes_doubled_witness:
  "doubleQuotes paramsA = None \<and>
   normalizeParams paramsA rowsA = Inr (withDefaults paramsA [FieldString ''a'']) \<and>
   n_doubleQuotes (withDefaults paramsA [FieldString ''a'']) = [dq, dq]"
proof -
  have h: "doubleQuotes paramsA = None"
    by (simp add: paramsA_def noParams_def)
  have q: "n_quotes (withDefaults paramsA [FieldString ''a'']) = [dq]"
    by (simp add: withDefaults_sel paramsA_def noParams_def)
  from default_doubleQuotes_doubled [OF h normalizeParams_A] h normalizeParams_A q
  show ?thesis by simp
qed

subsection \<open>C9: null as data\<close>



subsection \<open>C10: fields inferred while flattening\<close>




section \<open>Examples behind the conditions of the amended claims\<close>

text \<open>
  C1, a backslash as delimiter: with the cell of \<open>b\<close> empty, two delimiters meet and
  the last pass collapses them into one.
\<close>

lemma backslash_delimiter_line:
  "rowLine (withDefaults (noParams \<lparr> del := Some [bs], quotes := Some [] \<rparr>) fieldsABC) []
     (JObj [(''a'', JNum 1), (''c'', JNum 3)]) = ''1'' @ [bs] @ ''3''"
  by code_simp

text \<open>
  C1, a double quote as delimiter: after a cell that ends with a backslash the delimiter
  is taken for an escaped quote and replaced by \<open>doubleQuotes\<close>.
\<close>

lemma quote_delimiter_line:
  "rowLine (withDefaults (noParams \<lparr> del := Some [dq], quotes := Some [] \<rparr>) fieldsAB) []
     (JObj [(''a'', JStr (''x'' @ [bs])), (''b'', JNum 2)]) = ''x2''"
  by code_simp

text \<open>
  C1, a delimiter that occurs in \<open>doubleQuotes\<close>: the cell has no comma, the line
  has one.
\<close>

lemma delimiter_in_doubleQuotes_line:
  "cellText (withDefaults (noParams \<lparr> doubleQuotes := Some '','' \<rparr>) [FieldString ''a''])
     (JStr (''x'' @ [dq] @ ''y'')) = [dq] @ ''x'' @ [bs, dq] @ ''y'' @ [dq] \<and>
   rowLine (withDefaults (noParams \<lparr> doubleQuotes := Some '','' \<rparr>) [FieldString ''a'']) []
     (JObj [(''a'', JStr (''x'' @ [dq] @ ''y''))]) = [dq] @ ''x,y'' @ [dq]"
  by code_simp

text \<open>
  C1, a delimiter of two characters: only the last character of the line is removed, and
  the line ends with the rest of a delimiter.
\<close>

lemma two_character_delimiter_line:
  "rowLine (withDefaults (noParams \<lparr> del := Some ''; '' \<rparr>) fieldsAB) []
     (JObj [(''a'', JNum 1), (''b'', JNum 2)]) = ''1; 2;''"
  by code_simp

text \<open>
  C1, an empty header cell: with quoting disabled the empty name is written as the
  empty text, and the next name follows without a delimiter.
\<close>

lemma empty_header_cell_line:
  "createColumnTitles
     (withDefaults (noParams \<lparr> quotes := Some [], fieldNames := Some [[], ''B''] \<rparr>) fieldsAB) =
   Inr ''B''"
  by code_simp

text \<open>
  C4, an empty first line without a header: the test \<open>output !== ''\<close> takes the
  document for not yet begun, and the second line replaces the first instead of
  following it after a terminator.
\<close>

lemma empty_first_line_lost:
  "convert lf (JArr [JObj [(''b'', JNum 1)], JObj [(''a'', JNum 2)]])
     (paramsA \<lparr> hasCSVColumnTitle := Some False \<rparr>) = Inr ''2''"
  by code_simp

text \<open>
  C10, a top-level key with a dot: the column \<open>x.y\<close> inferred from the first key finds
  the key \<open>x.y\<close> that flattening \<open>x\<close> produced, and its cell is not the default.
\<close>

lemma dotted_column_finds_flattened_key:
  "normalizeData (JArr [JObj [(''x.y'', JObj [(''z'', JNum 1)]), (''x'', JObj [(''y'', JNum 2)])]])
     paramsFlatten = Inr [JObj [(''x.y.z'', JNum 1), (''x.y'', JNum 2)]] \<and>
   fieldVal (withDefaults paramsFlatten [FieldString ''x.y'', FieldString ''x''])
     [JObj [(''x.y.z'', JNum 1), (''x.y'', JNum 2)]]
     (JObj [(''x.y.z'', JNum 1), (''x.y'', JNum 2)]) (FieldString ''x.y'') = JNum 2"
  by code_simp

end
